theory Spec2Isabelle
  imports Complex_Main
begin

section \<open>Numbers and builtins\<close>

text \<open>
  The components of a \<^verbatim>\<open>vector\<close> are Python numbers (\<^verbatim>\<open>int\<close> or \<^verbatim>\<open>float\<close>).
  Both are read here as exact real numbers: \<^verbatim>\<open>1\<close> and \<^verbatim>\<open>1.0\<close> are the same value,
  as they are for Python's \<^verbatim>\<open>==\<close>, and arithmetic is exact. The rounding of a double
  to 53 bits, NaN and the infinities are outside of this reading, so it says what a
  method raises and which slots it writes, and gives the value of a float result only
  as the exact number the double approximates.
\<close>

text \<open>
  Python 3's builtin \<^verbatim>\<open>round(number, ndigits)\<close>: the nearest multiple of
  \<open>10 ^ - ndigits\<close>, a tie going to the even multiple. An integer is returned as it is.
\<close>

definition round_half_even :: "real \<Rightarrow> int" where
  "round_half_even r =
     (let f = \<lfloor>r\<rfloor>; d = r - of_int f
      in if d < 1 / 2 then f
         else if 1 / 2 < d then f + 1
         else if even f then f else f + 1)"

definition py_round :: "real \<Rightarrow> nat \<Rightarrow> real" where
  "py_round number ndigits = of_int (round_half_even (number * 10 ^ ndigits)) / 10 ^ ndigits"

text \<open>
  The range of a double. A finite float has a magnitude below \<open>2 ^ 1024 - 2 ^ 970\<close>, the
  least magnitude that rounds to infinity. An \<^verbatim>\<open>int\<close> of that magnitude or more does not
  convert to \<^verbatim>\<open>float\<close> (Python raises \<^verbatim>\<open>OverflowError\<close> where it has to, as in
  \<^verbatim>\<open>10**400 * 0.5\<close>), and a product of two floats of that magnitude or more is infinite.
  The operators \<^verbatim>\<open>+\<close>, \<^verbatim>\<open>-\<close>, \<^verbatim>\<open>*\<close> and \<^verbatim>\<open>/\<close> on two floats raise nothing when the
  result leaves the range. \<open>math_pi\<close> is the double \<^verbatim>\<open>math.pi\<close>.
\<close>

definition float_limit :: real where
  "float_limit = 2 ^ 1024 - 2 ^ 970"

definition convertible :: "real \<Rightarrow> bool" where
  "convertible a = (\<bar>a\<bar> < float_limit)"

definition math_pi :: real where
  "math_pi = 884279719003555 / 2 ^ 48"

text \<open>
  What the conversion of an \<^verbatim>\<open>int\<close> to \<^verbatim>\<open>float\<close> returns: the nearest number with 53
  significant bits, a tie going to the even one. A float is returned as it is.
\<close>

definition to_double :: "real \<Rightarrow> real" where
  "to_double a =
     (if a = 0 then 0
      else let e = \<lfloor>log 2 \<bar>a\<bar>\<rfloor>; q = 2 powr of_int (e - 52)
           in of_int (round_half_even (a / q)) * q)"

section \<open>utils.py: class vector\<close>

text \<open>
  The exceptions the class can raise. \<^verbatim>\<open>ValueError\<close> carries its message: the mutators
  of a vector that has been hashed raise it with a message that ends in
  \<^verbatim>\<open>after hashing\<close>, and \<^verbatim>\<open>math.cos\<close> raises it with \<^verbatim>\<open>math domain error\<close>.
  \<^verbatim>\<open>ZeroDivisionError\<close>, \<^verbatim>\<open>TypeError\<close> and \<^verbatim>\<open>OverflowError\<close> come from Python's
  arithmetic on the components.
\<close>

datatype error = ValueError string | IndexError | ZeroDivisionError | TypeError | OverflowError

text \<open>The three slots of an instance: \<^verbatim>\<open>_x\<close>, \<^verbatim>\<open>_y\<close> and \<^verbatim>\<open>_hash\<close>.\<close>

record vector =
  slot_x :: real
  slot_y :: real
  slot_hash :: "int option"

text \<open>
  The argument \<^verbatim>\<open>other\<close> of the operators: a vector (\<^verbatim>\<open>isinstance(other, vector)\<close>), a
  number, or \<^verbatim>\<open>None\<close>.
\<close>

datatype pyvalue = Vec vector | Num real | NoneValue

text \<open>What a rich comparison method returns: a bool or the constant \<^verbatim>\<open>NotImplemented\<close>.\<close>

datatype comparison = Bool bool | NotImplemented

text \<open>
  A method that mutates its receiver returns what it raised or returned, together with
  the slots of the receiver afterwards.
\<close>

type_synonym 'a effect = "(error + 'a) \<times> vector"

definition vector_init :: "real \<Rightarrow> real \<Rightarrow> vector" where
  "vector_init x y = \<lparr>slot_x = x, slot_y = y, slot_hash = None\<rparr>"

definition vector_x :: "vector \<Rightarrow> real" where
  "vector_x self = py_round (slot_x self) 9"

definition vector_x_setter :: "vector \<Rightarrow> real \<Rightarrow> unit effect" where
  "vector_x_setter self v =
     (if slot_hash self \<noteq> None then (Inl (ValueError ''cannot set x after hashing''), self)
      else (Inr (), self\<lparr>slot_x := v\<rparr>))"

definition vector_y :: "vector \<Rightarrow> real" where
  "vector_y self = py_round (slot_y self) 9"

definition vector_y_setter :: "vector \<Rightarrow> real \<Rightarrow> unit effect" where
  "vector_y_setter self v =
     (if slot_hash self \<noteq> None then (Inl (ValueError ''cannot set y after hashing''), self)
      else (Inr (), self\<lparr>slot_y := v\<rparr>))"


definition vector_len :: "vector \<Rightarrow> nat" where
  "vector_len self = 2"

definition vector_getitem :: "vector \<Rightarrow> int \<Rightarrow> error + real" where
  "vector_getitem self index =
     (if index = 0 then Inr (vector_x self)
      else if index = 1 then Inr (vector_y self)
      else Inl IndexError)"

definition vector_copy :: "vector \<Rightarrow> vector" where
  "vector_copy self = vector_init (slot_x self) (slot_y self)"

definition vector_eq :: "vector \<Rightarrow> pyvalue \<Rightarrow> error + comparison" where
  "vector_eq self other =
     (case other of
        Vec w \<Rightarrow> Inr (Bool (vector_x self = vector_x w \<and> vector_y self = vector_y w))
      | _ \<Rightarrow> Inr NotImplemented)"

definition vector_ne :: "vector \<Rightarrow> pyvalue \<Rightarrow> error + comparison" where
  "vector_ne self other =
     (case other of
        Vec w \<Rightarrow> Inr (Bool (vector_x self \<noteq> vector_x w \<and> vector_y self \<noteq> vector_y w))
      | _ \<Rightarrow> Inr NotImplemented)"

text \<open>
  The four augmented assignments. Each statement \<^verbatim>\<open>self._x += other._x\<close> reads the
  operand, computes (which may raise) and then writes the slot, so a failure in the
  second statement leaves the first slot already written. The arithmetic is that of
  numbers a double can hold (\<open>convertible\<close>): an \<^verbatim>\<open>int\<close> beyond that range, combined with
  a float, raises \<^verbatim>\<open>OverflowError\<close> in Python, which these definitions leave out, and
  what is stated about the success of the arithmetic is stated for convertible numbers.
\<close>

definition vector_iadd :: "vector \<Rightarrow> pyvalue \<Rightarrow> unit effect" where
  "vector_iadd self other =
     (if slot_hash self \<noteq> None then (Inl (ValueError ''cannot add vector after hashing''), self)
      else case other of
        Vec w \<Rightarrow> (Inr (), self\<lparr>slot_x := slot_x self + slot_x w, slot_y := slot_y self + slot_y w\<rparr>)
      | Num a \<Rightarrow> (Inr (), self\<lparr>slot_x := slot_x self + a, slot_y := slot_y self + a\<rparr>)
      | NoneValue \<Rightarrow> (Inl TypeError, self))"

definition vector_add :: "vector \<Rightarrow> pyvalue \<Rightarrow> error + vector" where
  "vector_add self other =
     (let copy = vector_copy self
      in case vector_iadd copy other of (Inl e, _) \<Rightarrow> Inl e | (Inr _, copy') \<Rightarrow> Inr copy')"

definition vector_move :: "vector \<Rightarrow> pyvalue \<Rightarrow> unit effect" where
  "vector_move self other = vector_iadd self other"

definition vector_isub :: "vector \<Rightarrow> pyvalue \<Rightarrow> unit effect" where
  "vector_isub self other =
     (if slot_hash self \<noteq> None then (Inl (ValueError ''cannot subtract vector after hashing''), self)
      else case other of
        Vec w \<Rightarrow> (Inr (), self\<lparr>slot_x := slot_x self - slot_x w, slot_y := slot_y self - slot_y w\<rparr>)
      | Num a \<Rightarrow> (Inr (), self\<lparr>slot_x := slot_x self - a, slot_y := slot_y self - a\<rparr>)
      | NoneValue \<Rightarrow> (Inl TypeError, self))"

definition vector_sub :: "vector \<Rightarrow> pyvalue \<Rightarrow> error + vector" where
  "vector_sub self other =
     (let copy = vector_copy self
      in case vector_isub copy other of (Inl e, _) \<Rightarrow> Inl e | (Inr _, copy') \<Rightarrow> Inr copy')"

definition vector_imul :: "vector \<Rightarrow> pyvalue \<Rightarrow> unit effect" where
  "vector_imul self other =
     (if slot_hash self \<noteq> None then (Inl (ValueError ''cannot multiply vector after hashing''), self)
      else case other of
        Vec w \<Rightarrow> (Inr (), self\<lparr>slot_x := slot_x self * slot_x w, slot_y := slot_y self * slot_y w\<rparr>)
      | Num a \<Rightarrow> (Inr (), self\<lparr>slot_x := slot_x self * a, slot_y := slot_y self * a\<rparr>)
      | NoneValue \<Rightarrow> (Inl TypeError, self))"

definition vector_mul :: "vector \<Rightarrow> pyvalue \<Rightarrow> error + vector" where
  "vector_mul self other =
     (let copy = vector_copy self
      in case vector_imul copy other of (Inl e, _) \<Rightarrow> Inl e | (Inr _, copy') \<Rightarrow> Inr copy')"

definition vector_scale :: "vector \<Rightarrow> pyvalue \<Rightarrow> unit effect" where
  "vector_scale self other = vector_imul self other"

text \<open>Python's \<^verbatim>\<open>/\<close> on numbers raises \<^verbatim>\<open>ZeroDivisionError\<close> when the divisor is zero.\<close>

definition vector_itruediv :: "vector \<Rightarrow> pyvalue \<Rightarrow> unit effect" where
  "vector_itruediv self other =
     (if slot_hash self \<noteq> None then (Inl (ValueError ''cannot divide vector after hashing''), self)
      else case other of
        Vec w \<Rightarrow>
          (if slot_x w = 0 then (Inl ZeroDivisionError, self)
           else let self1 = self\<lparr>slot_x := slot_x self / slot_x w\<rparr>
                in if slot_y w = 0 then (Inl ZeroDivisionError, self1)
                   else (Inr (), self1\<lparr>slot_y := slot_y self1 / slot_y w\<rparr>))
      | Num a \<Rightarrow>
          (if a = 0 then (Inl ZeroDivisionError, self)
           else (Inr (), self\<lparr>slot_x := slot_x self / a, slot_y := slot_y self / a\<rparr>))
      | NoneValue \<Rightarrow> (Inl TypeError, self))"

definition vector_truediv :: "vector \<Rightarrow> pyvalue \<Rightarrow> error + vector" where
  "vector_truediv self other =
     (let copy = vector_copy self
      in case vector_itruediv copy other of (Inl e, _) \<Rightarrow> Inl e | (Inr _, copy') \<Rightarrow> Inr copy')"

definition vector_neg :: "vector \<Rightarrow> vector" where
  "vector_neg self =
     (let copy = vector_copy self;
          copy1 = copy\<lparr>slot_x := - slot_x copy\<rparr>;
          copy2 = copy1\<lparr>slot_y := - slot_y copy1\<rparr>
      in copy2)"

text \<open>
  \<^verbatim>\<open>__abs__\<close> on exact numbers: the Euclidean norm of the slots. This is the value the
  game compares with 15, on whole-number coordinates.
\<close>

definition vector_abs :: "vector \<Rightarrow> real" where
  "vector_abs self = ((slot_x self)\<^sup>2 + (slot_y self)\<^sup>2) powr (1 / 2)"

text \<open>
  \<^verbatim>\<open>__abs__\<close> with the range of a double. When a square leaves the range,
  \<^verbatim>\<open>self._x ** 2\<close> raises \<^verbatim>\<open>OverflowError\<close> for a float, and for an \<^verbatim>\<open>int\<close> the exact
  sum does not convert to \<^verbatim>\<open>float\<close> in \<^verbatim>\<open>** 0.5\<close>, which raises \<^verbatim>\<open>OverflowError\<close> as
  well. Otherwise the result is the double that approximates the norm, provided the
  squares are not too small either: a nonzero square below \<open>2 ^ - 1022\<close> loses
  its digits (below about \<open>2 ^ - 1075\<close> it is 0.0), and nothing is stated about the
  value for such components (\<open>normal_square\<close>), nor for squares in range whose sum is
  not, where Python returns \<^verbatim>\<open>inf\<close> for floats and raises for ints.
\<close>

definition vector_abs_checked :: "vector \<Rightarrow> error + real" where
  "vector_abs_checked self =
     (if \<not> convertible ((slot_x self)\<^sup>2) \<or> \<not> convertible ((slot_y self)\<^sup>2)
        then Inl OverflowError
      else Inr (vector_abs self))"

definition normal_square :: "real \<Rightarrow> bool" where
  "normal_square a = (a = 0 \<or> 1 / 2 ^ 1022 \<le> a\<^sup>2)"

text \<open>
  \<^verbatim>\<open>rotate\<close>. After the frozen check, \<^verbatim>\<open>angle * math.pi\<close> raises \<^verbatim>\<open>OverflowError\<close> for
  an \<^verbatim>\<open>int\<close> that does not convert to \<^verbatim>\<open>float\<close>, and multiplies what the conversion
  returns otherwise; when the product is infinite, so is \<^verbatim>\<open>radians\<close>, and \<^verbatim>\<open>math.cos\<close>
  raises \<^verbatim>\<open>ValueError('math domain error')\<close>;
  \<^verbatim>\<open>x * cosine\<close> and \<^verbatim>\<open>y * sine\<close> raise \<^verbatim>\<open>OverflowError\<close> for a slot that holds an
  \<^verbatim>\<open>int\<close> that does not convert. All of this happens before the first slot is written.
  The angle is a number: the floats \<^verbatim>\<open>inf\<close> and \<^verbatim>\<open>nan\<close> are not.
\<close>

definition vector_rotate :: "vector \<Rightarrow> real \<Rightarrow> unit effect" where
  "vector_rotate self angle =
     (if slot_hash self \<noteq> None then (Inl (ValueError ''cannot rotate vector after hashing''), self)
      else if \<not> convertible angle then (Inl OverflowError, self)
      else if \<not> convertible (to_double angle * math_pi)
        then (Inl (ValueError ''math domain error''), self)
      else let radians = to_double angle * math_pi / 180;
               cosine = cos radians;
               sine = sin radians;
               x = slot_x self;
               y = slot_y self
           in if \<not> convertible x \<or> \<not> convertible y then (Inl OverflowError, self)
              else (Inr (), self\<lparr>slot_x := x * cosine - y * sine, slot_y := y * cosine + x * sine\<rparr>))"

text \<open>
  The operator \<^verbatim>\<open>v == other\<close> as Python evaluates it for a vector on the left and a
  number or \<^verbatim>\<open>None\<close> on the right: when \<^verbatim>\<open>__eq__\<close> returns \<^verbatim>\<open>NotImplemented\<close>, the
  reflected method of the builtin operand returns \<^verbatim>\<open>NotImplemented\<close> as well, and the
  comparison falls back to object identity, which is False.
\<close>

definition eq_operator :: "vector \<Rightarrow> pyvalue \<Rightarrow> error + bool" where
  "eq_operator v other =
     (case vector_eq v other of
        Inl e \<Rightarrow> Inl e
      | Inr (Bool b) \<Rightarrow> Inr b
      | Inr NotImplemented \<Rightarrow> Inr False)"

subsection \<open>Calling the mutators\<close>

text \<open>
  The in-place mutations of the class, as one type, so that a statement can speak of
  every one of them; \<open>mutate\<close> calls the method.
\<close>

datatype mutation =
    Set_x real | Set_y real
  | Iadd pyvalue | Isub pyvalue | Imul pyvalue | Itruediv pyvalue
  | Move pyvalue | Scale pyvalue
  | Rotate real

fun mutate :: "vector \<Rightarrow> mutation \<Rightarrow> unit effect" where
  "mutate v (Set_x a) = vector_x_setter v a"
| "mutate v (Set_y a) = vector_y_setter v a"
| "mutate v (Iadd other) = vector_iadd v other"
| "mutate v (Isub other) = vector_isub v other"
| "mutate v (Imul other) = vector_imul v other"
| "mutate v (Itruediv other) = vector_itruediv v other"
| "mutate v (Move other) = vector_move v other"
| "mutate v (Scale other) = vector_scale v other"
| "mutate v (Rotate angle) = vector_rotate v angle"

text \<open>The message of the \<^verbatim>\<open>ValueError\<close> each mutator raises on a hashed vector.\<close>

fun frozen_message :: "mutation \<Rightarrow> string" where
  "frozen_message (Set_x _) = ''cannot set x after hashing''"
| "frozen_message (Set_y _) = ''cannot set y after hashing''"
| "frozen_message (Iadd _) = ''cannot add vector after hashing''"
| "frozen_message (Isub _) = ''cannot subtract vector after hashing''"
| "frozen_message (Imul _) = ''cannot multiply vector after hashing''"
| "frozen_message (Itruediv _) = ''cannot divide vector after hashing''"
| "frozen_message (Move _) = ''cannot add vector after hashing''"
| "frozen_message (Scale _) = ''cannot multiply vector after hashing''"
| "frozen_message (Rotate _) = ''cannot rotate vector after hashing''"








subsection \<open>Objects and references\<close>

text \<open>
  A vector is an object: two names can refer to the same instance, and \<^verbatim>\<open>copy\<close> makes
  a new one. A store maps references to the slots of the instances; the references
  below \<open>fresh\<close> are in use, and an instance that is created gets the reference
  \<open>fresh\<close>.
\<close>

type_synonym ref = nat

record store =
  objs :: "ref \<Rightarrow> vector"
  fresh :: ref

text \<open>The argument \<^verbatim>\<open>other\<close> as the caller passes it: a reference to a vector, a number or \<^verbatim>\<open>None\<close>.\<close>

datatype argument = Ref ref | Number real | Nothing

definition load :: "store \<Rightarrow> argument \<Rightarrow> pyvalue" where
  "load s a = (case a of Ref r \<Rightarrow> Vec (objs s r) | Number n \<Rightarrow> Num n | Nothing \<Rightarrow> NoneValue)"

definition new_object :: "store \<Rightarrow> vector \<Rightarrow> ref \<times> store" where
  "new_object s v = (fresh s, s\<lparr>objs := (objs s)(fresh s := v), fresh := Suc (fresh s)\<rparr>)"

text \<open>A method called on the instance at a reference: the store keeps what the method did to it.\<close>

definition call :: "store \<Rightarrow> ref \<Rightarrow> (vector \<Rightarrow> 'a effect) \<Rightarrow> (error + 'a) \<times> store" where
  "call s r method =
     (case method (objs s r) of (result, v') \<Rightarrow> (result, s\<lparr>objs := (objs s)(r := v')\<rparr>))"

definition object_copy :: "store \<Rightarrow> ref \<Rightarrow> ref \<times> store" where
  "object_copy s self = new_object s (vector_copy (objs s self))"

text \<open>
  \<^verbatim>\<open>__add__\<close>, \<^verbatim>\<open>__sub__\<close>, \<^verbatim>\<open>__mul__\<close> and \<^verbatim>\<open>__truediv__\<close> have one body,
  \<^verbatim>\<open>copy = self.copy(); return copy.__iadd__(other)\<close> with the in-place method of the
  operator; \<open>inplace\<close> selects that method and \<open>binary\<close> the operator on slot values.
  The in-place methods read the slots of \<^verbatim>\<open>other\<close> and write those of the copy, which
  is never \<^verbatim>\<open>other\<close>, so loading the operand before the call reads what the method reads.
\<close>

datatype operator = Add | Sub | Mul | Truediv

fun inplace :: "operator \<Rightarrow> vector \<Rightarrow> pyvalue \<Rightarrow> unit effect" where
  "inplace Add = vector_iadd"
| "inplace Sub = vector_isub"
| "inplace Mul = vector_imul"
| "inplace Truediv = vector_itruediv"

fun binary :: "operator \<Rightarrow> vector \<Rightarrow> pyvalue \<Rightarrow> error + vector" where
  "binary Add = vector_add"
| "binary Sub = vector_sub"
| "binary Mul = vector_mul"
| "binary Truediv = vector_truediv"

definition object_binary :: "operator \<Rightarrow> store \<Rightarrow> ref \<Rightarrow> argument \<Rightarrow> (error + ref) \<times> store" where
  "object_binary op s self other =
     (case object_copy s self of (copy, s1) \<Rightarrow>
        (case call s1 copy (\<lambda>c. inplace op c (load s1 other)) of
           (Inl e, s2) \<Rightarrow> (Inl e, s2)
         | (Inr _, s2) \<Rightarrow> (Inr copy, s2)))"

definition object_neg :: "store \<Rightarrow> ref \<Rightarrow> ref \<times> store" where
  "object_neg s self =
     (case object_copy s self of (copy, s1) \<Rightarrow>
        let s2 = s1\<lparr>objs := (objs s1)(copy := (objs s1 copy)\<lparr>slot_x := - slot_x (objs s1 copy)\<rparr>)\<rparr>;
            s3 = s2\<lparr>objs := (objs s2)(copy := (objs s2 copy)\<lparr>slot_y := - slot_y (objs s2 copy)\<rparr>)\<rparr>
        in (copy, s3))"

text \<open>A store with one instance, \<^verbatim>\<open>vector(1, 2)\<close> after it has been hashed.\<close>

definition frozen_store :: store where
  "frozen_store = \<lparr>objs = (\<lambda>_. \<lparr>slot_x = 1, slot_y = 2, slot_hash = Some 7\<rparr>), fresh = 1\<rparr>"

section \<open>flappy.py\<close>
text \<open>
  The module keeps two globals, \<^verbatim>\<open>bird\<close> and \<^verbatim>\<open>balls\<close>. The bird is one instance that
  is never rebound, and every ball is an instance of its own, created by the spawn and
  held by the list only, so the state is the slots of the bird and the list of the slots
  of the balls, oldest first. What the turtle module holds is state as well: the dots on
  the canvas since the last \<^verbatim>\<open>clear()\<close>, the timers registered by \<^verbatim>\<open>ontimer\<close> and not yet
  fired (their delays in milliseconds), and the function bound by \<^verbatim>\<open>onscreenclick\<close>.
\<close>

datatype handler = Start | Tap

datatype colour = Black | Green | Red

type_synonym dot = "real \<times> real \<times> nat \<times> colour"

record game =
  bird :: vector
  balls :: "vector list"
  screen :: "dot list"
  timers :: "nat list"
  onclick :: handler

text \<open>
  The state when the module has been loaded: \<^verbatim>\<open>bird = vector(0, 0)\<close>, \<^verbatim>\<open>balls = []\<close>,
  \<^verbatim>\<open>onscreenclick(start)\<close>.
\<close>

definition initial_game :: game where
  "initial_game =
     \<lparr>bird = vector_init 0 0, balls = [], screen = [], timers = [], onclick = Start\<rparr>"

definition tap :: "real \<Rightarrow> real \<Rightarrow> game \<Rightarrow> error + game" where
  "tap x y g =
     (let up = vector_init 0 30
      in case vector_move (bird g) (Vec up) of
           (Inl e, _) \<Rightarrow> Inl e
         | (Inr _, bird') \<Rightarrow> Inr (g\<lparr>bird := bird'\<rparr>))"

definition inside :: "vector \<Rightarrow> bool" where
  "inside point =
     (- 200 < vector_x point \<and> vector_x point < 200 \<and> - 200 < vector_y point \<and> vector_y point < 200)"

text \<open>
  \<^verbatim>\<open>draw\<close>, in the order of its statements. \<open>move_balls\<close> is the loop
  \<^verbatim>\<open>for ball in balls: ball.x -= 3\<close>, which reads the property and calls the setter;
  \<open>draw_move\<close> is \<^verbatim>\<open>bird.y -= 5\<close> followed by that loop.
\<close>

fun move_balls :: "vector list \<Rightarrow> error + vector list" where
  "move_balls [] = Inr []"
| "move_balls (ball # rest) =
     (case vector_x_setter ball (vector_x ball - 3) of
        (Inl e, _) \<Rightarrow> Inl e
      | (Inr _, ball') \<Rightarrow>
          (case move_balls rest of Inl e \<Rightarrow> Inl e | Inr rest' \<Rightarrow> Inr (ball' # rest')))"

definition draw_move :: "game \<Rightarrow> error + game" where
  "draw_move g =
     (case vector_y_setter (bird g) (vector_y (bird g) - 5) of
        (Inl e, _) \<Rightarrow> Inl e
      | (Inr _, bird') \<Rightarrow>
          (case move_balls (balls g) of
             Inl e \<Rightarrow> Inl e
           | Inr balls' \<Rightarrow> Inr (g\<lparr>bird := bird', balls := balls'\<rparr>)))"

text \<open>
  The spawn. \<open>r\<close> is what \<^verbatim>\<open>randrange(15)\<close> returns in this call of \<^verbatim>\<open>draw\<close> and \<open>y\<close>
  what \<^verbatim>\<open>randrange(-199, 199)\<close> returns when it is called.
\<close>

definition draw_spawn :: "int \<Rightarrow> int \<Rightarrow> game \<Rightarrow> game" where
  "draw_spawn r y g =
     (if r = 0 then
        (let ball = vector_init 199 (of_int y) in g\<lparr>balls := balls g @ [ball]\<rparr>)
      else g)"

text \<open>
  \<open>dodge_all\<close> is the loop \<^verbatim>\<open>for ball in balls: dodge = abs(ball - bird) > 15;
  alive = alive and dodge\<close>, and \<open>draw_alive\<close> the value of \<^verbatim>\<open>alive\<close> after it.
\<close>

fun dodge_all :: "vector \<Rightarrow> vector list \<Rightarrow> bool \<Rightarrow> error + bool" where
  "dodge_all b [] alive = Inr alive"
| "dodge_all b (ball # rest) alive =
     (case vector_sub ball (Vec b) of
        Inl e \<Rightarrow> Inl e
      | Inr d \<Rightarrow> (let dodge = (15 < vector_abs d) in dodge_all b rest (alive \<and> dodge)))"

definition draw_alive :: "game \<Rightarrow> error + bool" where
  "draw_alive g = (let alive = inside (bird g) in dodge_all (bird g) (balls g) alive)"

text \<open>
  The rest of \<^verbatim>\<open>draw\<close>: \<^verbatim>\<open>balls.pop(0)\<close> when there are more than 30 balls, the
  canvas cleared and drawn again (a black dot of size 20 for each ball, a dot of size 10
  for the bird, green or red), and \<^verbatim>\<open>ontimer(draw, 50)\<close> when \<^verbatim>\<open>alive\<close>.
\<close>

definition draw_finish :: "bool \<Rightarrow> game \<Rightarrow> game" where
  "draw_finish alive g =
     (let balls1 = (if length (balls g) > 30 then tl (balls g) else balls g);
          dots = map (\<lambda>ball. (vector_x ball, vector_y ball, 20, Black)) balls1;
          dots1 = dots @ [(vector_x (bird g), vector_y (bird g), 10, if alive then Green else Red)];
          timers1 = (if alive then timers g @ [50] else timers g)
      in g\<lparr>balls := balls1, screen := dots1, timers := timers1\<rparr>)"

definition draw :: "int \<Rightarrow> int \<Rightarrow> game \<Rightarrow> error + game" where
  "draw r y g =
     (case draw_move g of
        Inl e \<Rightarrow> Inl e
      | Inr g1 \<Rightarrow>
          (let g2 = draw_spawn r y g1
           in case draw_alive g2 of
                Inl e \<Rightarrow> Inl e
              | Inr alive \<Rightarrow> Inr (draw_finish alive g2)))"

definition start :: "int \<Rightarrow> int \<Rightarrow> real \<Rightarrow> real \<Rightarrow> game \<Rightarrow> error + game" where
  "start r y cx cy g =
     (case draw r y g of Inl e \<Rightarrow> Inl e | Inr g' \<Rightarrow> Inr (g'\<lparr>onclick := Tap\<rparr>))"

text \<open>
  The event loop of the turtle module. A click calls the function that is bound at that
  moment; a timer that fires is removed and calls \<^verbatim>\<open>draw\<close>; with no timer registered
  none can fire. Each event comes with the two random numbers a call of \<^verbatim>\<open>draw\<close> would
  consume.
\<close>

datatype event = Click real real | Timer

fun fire :: "int \<Rightarrow> int \<Rightarrow> event \<Rightarrow> game \<Rightarrow> error + game" where
  "fire r y (Click cx cy) g =
     (case onclick g of Start \<Rightarrow> start r y cx cy g | Tap \<Rightarrow> tap cx cy g)"
| "fire r y Timer g =
     (case timers g of [] \<Rightarrow> Inr g | t # ts \<Rightarrow> draw r y (g\<lparr>timers := ts\<rparr>))"

fun run :: "(event \<times> int \<times> int) list \<Rightarrow> game \<Rightarrow> error + game" where
  "run [] g = Inr g"
| "run ((e, r, y) # rest) g =
     (case fire r y e g of Inl err \<Rightarrow> Inl err | Inr g' \<Rightarrow> run rest g')"

text \<open>
  Successive calls of \<^verbatim>\<open>draw\<close>, one for each pair of random numbers.
\<close>

fun ticks :: "(int \<times> int) list \<Rightarrow> game \<Rightarrow> error + game" where
  "ticks [] g = Inr g"
| "ticks ((r, y) # rest) g =
     (case draw r y g of Inl e \<Rightarrow> Inl e | Inr g' \<Rightarrow> ticks rest g')"

subsection \<open>Describing the states of the game\<close>

text \<open>
  A vector of the game is plain: it has never been hashed, and its coordinates are whole
  numbers (the module only ever adds and subtracts integers). \<open>game_inv\<close> holds of every
  state the game reaches; \<open>reach_inv\<close> adds the bound on the balls and that at most
  one timer is registered, none before the first click.
\<close>

definition plain :: "vector \<Rightarrow> bool" where
  "plain v = (slot_hash v = None \<and> slot_x v \<in> \<int> \<and> slot_y v \<in> \<int>)"

definition game_inv :: "game \<Rightarrow> bool" where
  "game_inv g = (plain (bird g) \<and> (\<forall>ball \<in> set (balls g). plain ball))"

definition reach_inv :: "game \<Rightarrow> bool" where
  "reach_inv g =
     (game_inv g \<and> length (balls g) \<le> 30 \<and> length (timers g) \<le> 1
      \<and> (onclick g = Start \<longrightarrow> timers g = []))"

text \<open>
  What the first statements of \<^verbatim>\<open>draw\<close> do to such a state: every ball three to the
  left, the new ball if one arrives, the bird five down.
\<close>

definition moved :: "vector list \<Rightarrow> vector list" where
  "moved bs = map (\<lambda>ball. ball\<lparr>slot_x := slot_x ball - 3\<rparr>) bs"

definition arrivals :: "int \<Rightarrow> int \<Rightarrow> vector list" where
  "arrivals r y = (if r = 0 then [vector_init 199 (of_int y)] else [])"

definition after_moves :: "int \<Rightarrow> int \<Rightarrow> game \<Rightarrow> game" where
  "after_moves r y g =
     g\<lparr>bird := (bird g)\<lparr>slot_y := slot_y (bird g) - 5\<rparr>, balls := moved (balls g) @ arrivals r y\<rparr>"

text \<open>
  The two conditions of \<^verbatim>\<open>alive\<close> on the stored coordinates: the bird strictly inside
  the field, and every ball further than 15 from the bird.
\<close>

definition in_field :: "vector \<Rightarrow> bool" where
  "in_field b = (- 200 < slot_x b \<and> slot_x b < 200 \<and> - 200 < slot_y b \<and> slot_y b < 200)"

definition clear_of :: "vector \<Rightarrow> vector \<Rightarrow> bool" where
  "clear_of b ball = (15 < sqrt ((slot_x ball - slot_x b)\<^sup>2 + (slot_y ball - slot_y b)\<^sup>2))"

definition survives :: "game \<Rightarrow> bool" where
  "survives g = (in_field (bird g) \<and> (\<forall>ball \<in> set (balls g). clear_of (bird g) ball))"

text \<open>
  The eviction, and every ball spawned by a sequence of calls of \<^verbatim>\<open>draw\<close> at the place
  it has moved to, oldest first, had none been evicted.
\<close>

definition evict :: "vector list \<Rightarrow> vector list" where
  "evict bs = (if length bs > 30 then tl bs else bs)"

fun spawned :: "vector list \<Rightarrow> (int \<times> int) list \<Rightarrow> vector list" where
  "spawned bs [] = bs"
| "spawned bs ((r, y) # rest) = spawned (moved bs @ arrivals r y) rest"

text \<open>
  States and inputs for the examples: a bird at (0, 5) with one ball at (x, 0); a bird at
  height h with a tick pending; the state after the bird has left the field at the top;
  thirty-one calls of \<^verbatim>\<open>draw\<close> that all spawn.
\<close>

definition collision_game :: "real \<Rightarrow> game" where
  "collision_game x =
     \<lparr>bird = vector_init 0 5, balls = [vector_init x 0], screen = [], timers = [], onclick = Tap\<rparr>"

definition falling_game :: "real \<Rightarrow> game" where
  "falling_game h =
     \<lparr>bird = vector_init 0 h, balls = [], screen = [], timers = [50], onclick = Tap\<rparr>"

definition ended_game :: game where
  "ended_game =
     \<lparr>bird = vector_init 0 200, balls = [], screen = [(0, 200, 10, Red)], timers = [],
      onclick = Tap\<rparr>"

definition spawn_run :: "(int \<times> int) list" where
  "spawn_run = [(0, 1), (0, 2), (0, 3), (0, 4), (0, 5), (0, 6), (0, 7), (0, 8), (0, 9), (0, 10), (0, 11), (0, 12), (0, 13), (0, 14), (0, 15), (0, 16), (0, 17), (0, 18), (0, 19), (0, 20), (0, 21), (0, 22), (0, 23), (0, 24), (0, 25), (0, 26), (0, 27), (0, 28), (0, 29), (0, 30), (0, 31)]"

section \<open>Rounding\<close>

lemma round_half_even_of_int: "round_half_even (of_int n) = n"
  by (simp add: round_half_even_def)


lemma py_round_of_int: "py_round (of_int n) k = of_int n"
proof -
  have "real_of_int n * 10 ^ k = of_int (n * 10 ^ k)" by simp
  then show ?thesis
    unfolding py_round_def by (simp only: round_half_even_of_int) simp
qed

section \<open>Comparison\<close>

text \<open>
  C5. Two vectors whose rounded components differ in exactly one coordinate: \<^verbatim>\<open>__ne__\<close>
  answers False (it joins the two mismatches with \<^verbatim>\<open>and\<close>), and \<^verbatim>\<open>__eq__\<close> answers
  False too, so on such a pair \<^verbatim>\<open>!=\<close> is not the negation of \<^verbatim>\<open>==\<close>.
\<close>

theorem ne_not_negation_of_eq:
  assumes "(vector_x v \<noteq> vector_x w) \<noteq> (vector_y v \<noteq> vector_y w)"
  shows "vector_ne v (Vec w) = Inr (Bool False) \<and> vector_eq v (Vec w) = Inr (Bool False)"
  using assms by (auto simp: vector_ne_def vector_eq_def)

theorem ne_not_negation_of_eq_witness:
  "(vector_x (vector_init 1 2) \<noteq> vector_x (vector_init 1 3))
     \<noteq> (vector_y (vector_init 1 2) \<noteq> vector_y (vector_init 1 3))
   \<and> vector_ne (vector_init 1 2) (Vec (vector_init 1 3)) = Inr (Bool False)
   \<and> vector_eq (vector_init 1 2) (Vec (vector_init 1 3)) = Inr (Bool False)"
  using ne_not_negation_of_eq [of "vector_init 1 2" "vector_init 1 3"]
  by (simp add: vector_init_def vector_x_def vector_y_def py_round_def round_half_even_def)

text \<open>
  C7, as claimed: \<^verbatim>\<open>__eq__\<close> with an operand that is not a vector raises a type error.
  It does not: \<^verbatim>\<open>vector(1, 2).__eq__(3)\<close> returns \<^verbatim>\<open>NotImplemented\<close>, and
  \<^verbatim>\<open>vector(1, 2) == 3\<close> is False.
\<close>

theorem eq_non_vector_counterexample:
  "vector_eq (vector_init 1 2) (Num 3) \<noteq> Inl TypeError
   \<and> vector_eq (vector_init 1 2) (Num 3) = Inr NotImplemented
   \<and> eq_operator (vector_init 1 2) (Num 3) = Inr False"
  by (simp add: vector_eq_def eq_operator_def)

text \<open>
  C7, amended: with an operand that is not a vector, \<^verbatim>\<open>__eq__\<close> raises nothing and
  returns \<^verbatim>\<open>NotImplemented\<close>, which the operator \<^verbatim>\<open>==\<close> turns into False; with a vector
  operand it returns True exactly when the rounded components are equal.
\<close>

theorem eq_returns_not_implemented:
  "vector_eq v (Num a) = Inr NotImplemented
   \<and> vector_eq v NoneValue = Inr NotImplemented
   \<and> eq_operator v (Num a) = Inr False
   \<and> eq_operator v NoneValue = Inr False
   \<and> vector_eq v (Vec w) = Inr (Bool (vector_x v = vector_x w \<and> vector_y v = vector_y w))
   \<and> eq_operator v (Vec w) = Inr (vector_x v = vector_x w \<and> vector_y v = vector_y w)"
  by (simp add: vector_eq_def eq_operator_def)

section \<open>Reading and storing components\<close>

lemma vector_abs_sqrt: "vector_abs v = sqrt ((slot_x v)\<^sup>2 + (slot_y v)\<^sup>2)"
  by (simp add: vector_abs_def powr_half_sqrt)

lemma py_round_Ints: "a \<in> \<int> \<Longrightarrow> py_round a k = a"
  by (auto elim!: Ints_cases simp: py_round_of_int)

lemma abs_checked_overflow:
  "2 ^ 1024 \<le> (slot_x v)\<^sup>2 \<or> 2 ^ 1024 \<le> (slot_y v)\<^sup>2 \<Longrightarrow>
   vector_abs_checked v = Inl OverflowError"
proof -
  have "float_limit < 2 ^ 1024" by (simp add: float_limit_def)
  moreover assume "2 ^ 1024 \<le> (slot_x v)\<^sup>2 \<or> 2 ^ 1024 \<le> (slot_y v)\<^sup>2"
  ultimately have "\<not> convertible ((slot_x v)\<^sup>2) \<or> \<not> convertible ((slot_y v)\<^sup>2)"
    by (auto simp: convertible_def)
  then show ?thesis by (simp add: vector_abs_checked_def)
qed

lemma abs_checked_in_range:
  assumes "(slot_x v)\<^sup>2 + (slot_y v)\<^sup>2 \<le> 2 ^ 1023"
  shows "vector_abs_checked v = Inr (sqrt ((slot_x v)\<^sup>2 + (slot_y v)\<^sup>2))"
proof -
  have b: "(2 ^ 1023 :: real) < float_limit" by (simp add: float_limit_def)
  have "(slot_x v)\<^sup>2 < float_limit"
    using assms b zero_le_power2 [of "slot_y v"] by linarith
  moreover have "(slot_y v)\<^sup>2 < float_limit"
    using assms b zero_le_power2 [of "slot_x v"] by linarith
  ultimately have "convertible ((slot_x v)\<^sup>2)" "convertible ((slot_y v)\<^sup>2)"
    by (simp_all add: convertible_def)
  then show ?thesis by (simp add: vector_abs_checked_def vector_abs_sqrt)
qed

text \<open>
  C8, as claimed: for every vector \<^verbatim>\<open>abs\<close> returns the square root of the sum of the
  squares of the stored components. \<^verbatim>\<open>abs(vector(1e200, 0))\<close> returns nothing:
  \<^verbatim>\<open>1e200 ** 2\<close> raises \<^verbatim>\<open>OverflowError\<close>.
\<close>

theorem magnitude_counterexample:
  "vector_abs_checked (vector_init (10 ^ 200) 0) = Inl OverflowError"
  by (simp add: vector_abs_checked_def vector_init_def convertible_def float_limit_def)

text \<open>
  C8, amended. The properties \<^verbatim>\<open>x\<close> and \<^verbatim>\<open>y\<close> return the slot rounded to 9 decimals (a
  whole number as it is), while the constructor and the setters store the value they are
  given, unrounded. \<^verbatim>\<open>abs\<close> works on the slots, not on the rounded reads: it raises
  \<^verbatim>\<open>OverflowError\<close> when the square of a slot is \<open>2 ^ 1024\<close> or more, and when each
  slot is zero or has a square of at least \<open>2 ^ - 1022\<close> and the sum of the squares
  is at most \<open>2 ^ 1023\<close>, it returns the double for the square root of that sum.
\<close>

theorem magnitude_from_stored_components:
  "vector_x v = py_round (slot_x v) 9 \<and> vector_y v = py_round (slot_y v) 9
   \<and> (slot_x v \<in> \<int> \<longrightarrow> vector_x v = slot_x v) \<and> (slot_y v \<in> \<int> \<longrightarrow> vector_y v = slot_y v)
   \<and> slot_x (vector_init a b) = a \<and> slot_y (vector_init a b) = b
   \<and> (slot_hash v = None \<longrightarrow>
        slot_x (snd (vector_x_setter v a)) = a \<and> slot_y (snd (vector_y_setter v b)) = b)
   \<and> (2 ^ 1024 \<le> (slot_x v)\<^sup>2 \<or> 2 ^ 1024 \<le> (slot_y v)\<^sup>2 \<longrightarrow>
        vector_abs_checked v = Inl OverflowError)
   \<and> (normal_square (slot_x v) \<and> normal_square (slot_y v)
        \<and> (slot_x v)\<^sup>2 + (slot_y v)\<^sup>2 \<le> 2 ^ 1023 \<longrightarrow>
        vector_abs_checked v = Inr (sqrt ((slot_x v)\<^sup>2 + (slot_y v)\<^sup>2)))"
  using abs_checked_overflow [of v] abs_checked_in_range [of v]
    py_round_Ints [of "slot_x v" 9] py_round_Ints [of "slot_y v" 9]
  by (simp add: vector_x_def vector_y_def vector_init_def vector_x_setter_def vector_y_setter_def)

text \<open>
  An x with ten decimals, 0.1234567891: it is stored whole, read as 0.123456789, and the
  magnitude is that of the stored value. With x = 3 the read is 3. With x = 1e200 the
  magnitude raises.
\<close>

theorem magnitude_from_stored_components_witness:
  "slot_hash (vector_init 0 0) = None
   \<and> snd (vector_x_setter (vector_init 0 0) (1234567891 / 10 ^ 10)) = vector_init (1234567891 / 10 ^ 10) 0
   \<and> normal_square (1234567891 / 10 ^ 10) \<and> normal_square 0
   \<and> (1234567891 / 10 ^ 10)\<^sup>2 + 0\<^sup>2 \<le> (2 ^ 1023 :: real)
   \<and> vector_x (vector_init (1234567891 / 10 ^ 10) 0) = 123456789 / 10 ^ 9
   \<and> vector_abs_checked (vector_init (1234567891 / 10 ^ 10) 0) = Inr (1234567891 / 10 ^ 10)
   \<and> (3::real) \<in> \<int> \<and> vector_x (vector_init 3 4) = 3
   \<and> (2 ^ 1024 :: real) \<le> (10 ^ 200)\<^sup>2
   \<and> vector_abs_checked (vector_init (10 ^ 200) 0) = Inl OverflowError"
proof -
  let ?v = "vector_init (1234567891 / 10 ^ 10) 0"
  have n: "normal_square (1234567891 / 10 ^ 10)" "normal_square 0"
    "(1234567891 / 10 ^ 10)\<^sup>2 + 0\<^sup>2 \<le> (2 ^ 1023 :: real)"
    "(2 ^ 1024 :: real) \<le> (10 ^ 200)\<^sup>2"
    by (simp_all add: normal_square_def power2_eq_square)
  have s: "slot_hash (vector_init 0 0) = None"
    "snd (vector_x_setter (vector_init 0 0) (1234567891 / 10 ^ 10)) = ?v"
    by (simp_all add: vector_init_def vector_x_setter_def)
  have "normal_square (slot_x ?v) \<and> normal_square (slot_y ?v)
      \<and> (slot_x ?v)\<^sup>2 + (slot_y ?v)\<^sup>2 \<le> 2 ^ 1023"
    using n(1,2,3) by (simp add: vector_init_def)
  with magnitude_from_stored_components [of ?v 0 0]
  have "vector_x ?v = py_round (slot_x ?v) 9"
    and "vector_abs_checked ?v = Inr (sqrt ((slot_x ?v)\<^sup>2 + (slot_y ?v)\<^sup>2))"
    by blast+
  then have a: "vector_x ?v = 123456789 / 10 ^ 9" "vector_abs_checked ?v = Inr (1234567891 / 10 ^ 10)"
    by (simp_all add: vector_init_def py_round_def round_half_even_def)
  have "slot_x (vector_init 3 4) \<in> \<int>" by (simp add: vector_init_def)
  with magnitude_from_stored_components [of "vector_init 3 4" 0 0]
  have "vector_x (vector_init 3 4) = slot_x (vector_init 3 4)" by blast
  then have b: "(3::real) \<in> \<int>" "vector_x (vector_init 3 4) = 3"
    by (simp_all add: vector_init_def)
  have "2 ^ 1024 \<le> (slot_x (vector_init (10 ^ 200) 0))\<^sup>2"
    using n(4) by (simp add: vector_init_def)
  with magnitude_from_stored_components [of "vector_init (10 ^ 200) 0" 0 0]
  have c: "vector_abs_checked (vector_init (10 ^ 200) 0) = Inl OverflowError" by blast
  from n s a b c show ?thesis by blast
qed

section \<open>Freezing by hashing\<close>

lemmas mutator_defs =
  vector_x_setter_def vector_y_setter_def vector_iadd_def vector_isub_def vector_imul_def
  vector_itruediv_def vector_move_def vector_scale_def vector_rotate_def

lemma mutate_frozen:
  "slot_hash v \<noteq> None \<Longrightarrow> mutate v m = (Inl (ValueError (frozen_message m)), v)"
  by (cases m) (simp_all add: mutator_defs)













text \<open>
  C9. On a hashed vector every in-place mutation raises the \<^verbatim>\<open>ValueError\<close> of its
  frozen check and leaves \<^verbatim>\<open>_x\<close>, \<^verbatim>\<open>_y\<close> and \<^verbatim>\<open>_hash\<close> as they were: the check comes
  before any write, and before the arithmetic (a division by zero is not reached).
\<close>

theorem frozen_mutation_atomic:
  assumes "slot_hash v \<noteq> None"
  shows "mutate v m = (Inl (ValueError (frozen_message m)), v)"
  using assms by (rule mutate_frozen)

theorem frozen_mutation_atomic_witness:
  "slot_hash \<lparr>slot_x = 1, slot_y = 2, slot_hash = Some 7\<rparr> \<noteq> None
   \<and> mutate \<lparr>slot_x = 1, slot_y = 2, slot_hash = Some 7\<rparr> (Itruediv (Num 0))
       = (Inl (ValueError ''cannot divide vector after hashing''),
          \<lparr>slot_x = 1, slot_y = 2, slot_hash = Some 7\<rparr>)"
  using frozen_mutation_atomic [of "\<lparr>slot_x = 1, slot_y = 2, slot_hash = Some 7\<rparr>" "Itruediv (Num 0)"]
  by simp

section \<open>Operators on a copy\<close>

lemmas inplace_defs = vector_iadd_def vector_isub_def vector_imul_def vector_itruediv_def
lemmas binary_defs = vector_add_def vector_sub_def vector_mul_def vector_truediv_def

lemma inplace_unfrozen_error:
  "slot_hash c = None \<Longrightarrow> fst (inplace op c other) \<noteq> Inl (ValueError msg)"
  by (cases op) (auto simp: inplace_defs Let_def split: pyvalue.split)

lemma inplace_slot_hash: "slot_hash (snd (inplace op c other)) = slot_hash c"
  by (cases op) (simp_all add: inplace_defs Let_def split: pyvalue.split)

lemma binary_inplace:
  "binary op v other =
     (case inplace op (vector_copy v) other of (Inl e, _) \<Rightarrow> Inl e | (Inr _, c) \<Rightarrow> Inr c)"
  by (cases op) (simp_all add: binary_defs)


lemma object_binary_cases:
  "object_binary op s self other =
     (let c = vector_copy (objs s self);
          s1 = s\<lparr>objs := (objs s)(fresh s := c), fresh := Suc (fresh s)\<rparr>;
          res = inplace op c (load s1 other);
          s2 = s1\<lparr>objs := (objs s1)(fresh s := snd res)\<rparr>
      in (case fst res of Inl e \<Rightarrow> Inl e | Inr _ \<Rightarrow> Inr (fresh s), s2))"
  by (simp add: object_binary_def object_copy_def new_object_def call_def Let_def
      split: prod.split sum.split)

lemma vector_copy_unfrozen: "slot_hash (vector_copy v) = None"
  by (simp add: vector_copy_def vector_init_def)

text \<open>
  C10. For a receiver that exists in the store, hashed or not: \<^verbatim>\<open>+\<close>, \<^verbatim>\<open>-\<close>, \<^verbatim>\<open>*\<close>
  and \<^verbatim>\<open>/\<close> leave the instance of the receiver as it was (slots and hash), never raise
  the \<^verbatim>\<open>ValueError\<close> of a hashed vector, and what they return is a new instance, not
  the receiver, that is not hashed; so do \<^verbatim>\<open>-v\<close> and \<^verbatim>\<open>copy\<close>, whose result has the
  negated, respectively the same, slots.
\<close>

theorem operators_work_on_a_copy:
  assumes "self < fresh s"
  shows "(case object_binary op s self other of (r, s') \<Rightarrow>
            objs s' self = objs s self
            \<and> (\<forall>msg. r \<noteq> Inl (ValueError msg))
            \<and> (\<forall>c. r = Inr c \<longrightarrow> c = fresh s \<and> c \<noteq> self \<and> slot_hash (objs s' c) = None))
       \<and> (case object_neg s self of (c, s') \<Rightarrow>
            objs s' self = objs s self \<and> c = fresh s \<and> c \<noteq> self
            \<and> objs s' c = vector_init (- slot_x (objs s self)) (- slot_y (objs s self)))
       \<and> (case object_copy s self of (c, s') \<Rightarrow>
            objs s' self = objs s self \<and> c = fresh s \<and> c \<noteq> self
            \<and> objs s' c = vector_init (slot_x (objs s self)) (slot_y (objs s self)))"
proof -
  let ?c = "vector_copy (objs s self)"
  let ?s1 = "s\<lparr>objs := (objs s)(fresh s := ?c), fresh := Suc (fresh s)\<rparr>"
  let ?res = "inplace op ?c (load ?s1 other)"
  have ne: "fresh s \<noteq> self" using assms by simp
  have "\<forall>msg. fst ?res \<noteq> Inl (ValueError msg)"
    using inplace_unfrozen_error [OF vector_copy_unfrozen] by blast
  moreover have "slot_hash (snd ?res) = None"
    by (simp add: inplace_slot_hash vector_copy_unfrozen)
  ultimately have "case object_binary op s self other of (r, s') \<Rightarrow>
            objs s' self = objs s self
            \<and> (\<forall>msg. r \<noteq> Inl (ValueError msg))
            \<and> (\<forall>c. r = Inr c \<longrightarrow> c = fresh s \<and> c \<noteq> self \<and> slot_hash (objs s' c) = None)"
    using ne by (auto simp: object_binary_cases Let_def split: sum.split)
  moreover have "case object_neg s self of (c, s') \<Rightarrow>
            objs s' self = objs s self \<and> c = fresh s \<and> c \<noteq> self
            \<and> objs s' c = vector_init (- slot_x (objs s self)) (- slot_y (objs s self))"
    using ne by (simp add: object_neg_def object_copy_def new_object_def vector_copy_def
        vector_init_def Let_def)
  moreover have "case object_copy s self of (c, s') \<Rightarrow>
            objs s' self = objs s self \<and> c = fresh s \<and> c \<noteq> self
            \<and> objs s' c = vector_init (slot_x (objs s self)) (slot_y (objs s self))"
    using ne by (simp add: object_copy_def new_object_def vector_copy_def)
  ultimately show ?thesis by blast
qed

theorem operators_work_on_a_copy_witness:
  "(0::nat) < fresh frozen_store
   \<and> slot_hash (objs frozen_store 0) = Some 7
   \<and> fst (object_binary Add frozen_store 0 (Ref 0)) = Inr 1
   \<and> objs (snd (object_binary Add frozen_store 0 (Ref 0))) 0 = objs frozen_store 0
   \<and> objs (snd (object_binary Add frozen_store 0 (Ref 0))) 1 = vector_init 2 4
   \<and> fst (object_binary Truediv frozen_store 0 (Number 0)) = Inl ZeroDivisionError
   \<and> objs (snd (object_neg frozen_store 0)) 1 = vector_init (- 1) (- 2)"
  using operators_work_on_a_copy [of 0 frozen_store Add "Ref 0"]
  by (simp add: frozen_store_def object_binary_cases load_def vector_copy_def vector_init_def
      vector_iadd_def vector_itruediv_def object_neg_def object_copy_def new_object_def Let_def)

lemma object_binary_value:
  assumes "\<forall>r. other = Ref r \<longrightarrow> r < fresh s"
  shows "(case object_binary op s self other of
            (Inl e, s') \<Rightarrow> binary op (objs s self) (load s other) = Inl e
          | (Inr c, s') \<Rightarrow> binary op (objs s self) (load s other) = Inr (objs s' c))"
proof -
  have "load (s\<lparr>objs := (objs s)(fresh s := c), fresh := Suc (fresh s)\<rparr>) other = load s other" for c
    using assms by (cases other) (auto simp: load_def)
  then show ?thesis
    by (auto simp: object_binary_cases binary_inplace Let_def split: sum.split prod.split)
qed

section \<open>The game loop\<close>

lemma move_balls_plain:
  "\<forall>ball \<in> set bs. plain ball \<Longrightarrow>
   move_balls bs = Inr (moved bs)"
  by (induction bs)
    (simp_all add: moved_def plain_def vector_x_setter_def vector_x_def py_round_Ints)

lemma dodge_all_eq:
  "dodge_all b bs alive = Inr (alive \<and> (\<forall>ball \<in> set bs. clear_of b ball))"
  by (induction bs arbitrary: alive)
    (auto simp: clear_of_def vector_sub_def vector_isub_def vector_copy_def vector_init_def
      vector_abs_sqrt)

lemma inside_plain: "plain b \<Longrightarrow> inside b = in_field b"
  by (simp add: plain_def inside_def in_field_def vector_x_def vector_y_def py_round_Ints)

lemma draw_move_inv:
  "game_inv g \<Longrightarrow>
   draw_move g = Inr (g\<lparr>bird := (bird g)\<lparr>slot_y := slot_y (bird g) - 5\<rparr>, balls := moved (balls g)\<rparr>)"
  by (simp add: game_inv_def draw_move_def move_balls_plain plain_def vector_y_setter_def
      vector_y_def py_round_Ints)

lemma plain_moved: "\<forall>ball \<in> set bs. plain ball \<Longrightarrow> \<forall>ball \<in> set (moved bs). plain ball"
  by (auto simp: moved_def plain_def)

lemma plain_arrivals: "\<forall>ball \<in> set (arrivals r y). plain ball"
  by (simp add: arrivals_def plain_def vector_init_def)

lemma after_moves_inv: "game_inv g \<Longrightarrow> game_inv (after_moves r y g)"
  using plain_moved [of "balls g"] plain_arrivals [of r y]
  by (auto simp: game_inv_def after_moves_def plain_def)

lemma draw_spawn_after_moves:
  "draw_spawn r y (g\<lparr>bird := (bird g)\<lparr>slot_y := slot_y (bird g) - 5\<rparr>, balls := moved (balls g)\<rparr>)
     = after_moves r y g"
  by (simp add: draw_spawn_def after_moves_def arrivals_def)

lemma draw_alive_inv:
  "game_inv g \<Longrightarrow>
   draw_alive g = Inr (in_field (bird g) \<and> (\<forall>ball \<in> set (balls g). clear_of (bird g) ball))"
  by (simp add: draw_alive_def dodge_all_eq inside_plain game_inv_def)

lemma draw_inv:
  "game_inv g \<Longrightarrow>
   draw r y g = Inr (draw_finish (survives (after_moves r y g)) (after_moves r y g))"
  using draw_alive_inv [OF after_moves_inv, of g r y]
  by (simp add: draw_def draw_move_inv draw_spawn_after_moves survives_def Let_def)

lemma draw_finish_inv: "game_inv g \<Longrightarrow> game_inv (draw_finish a g)"
  by (auto simp: game_inv_def draw_finish_def Let_def dest: list.set_sel(2) [rotated])

lemma draw_preserves_inv: "game_inv g \<Longrightarrow> draw r y g = Inr g' \<Longrightarrow> game_inv g'"
  using draw_finish_inv [OF after_moves_inv] by (auto simp: draw_inv)

lemma balls_draw_finish: "balls (draw_finish a g) = evict (balls g)"
  by (simp add: draw_finish_def evict_def Let_def)

lemma evict_drop:
  assumes "length s \<le> 1"
  shows "evict (drop (length acc - 30) acc @ s) = drop (length (acc @ s) - 30) (acc @ s)"
proof (cases "length acc < 30")
  case True
  then show ?thesis using assms by (simp add: evict_def)
next
  case False
  then have long: "30 \<le> length acc" by simp
  show ?thesis
  proof (cases s)
    case Nil
    then show ?thesis using long by (simp add: evict_def)
  next
    case (Cons a rest)
    then have s: "s = [a]" using assms by simp
    have len: "length (drop (length acc - 30) acc) = 30" using long by simp
    then have ne: "drop (length acc - 30) acc \<noteq> []" by auto
    have "evict (drop (length acc - 30) acc @ s) = tl (drop (length acc - 30) acc) @ [a]"
      using len ne by (simp add: evict_def s)
    also have "tl (drop (length acc - 30) acc) = drop (Suc (length acc - 30)) acc"
      by (simp add: drop_Suc tl_drop)
    also have "Suc (length acc - 30) = length (acc @ s) - 30"
      using long by (simp add: s)
    also have "drop (length (acc @ s) - 30) acc @ [a] = drop (length (acc @ s) - 30) (acc @ s)"
      using long by (simp add: s)
    finally show ?thesis .
  qed
qed

lemma length_arrivals: "length (arrivals r y) \<le> 1"
  by (simp add: arrivals_def)

lemma moved_drop: "moved (drop k bs) = drop k (moved bs)"
  by (simp add: moved_def drop_map)

lemma length_moved: "length (moved bs) = length bs"
  by (simp add: moved_def)

lemma ticks_window:
  "game_inv g \<Longrightarrow> balls g = drop (length acc - 30) acc \<Longrightarrow>
   \<exists>g'. ticks rs g = Inr g' \<and> game_inv g'
      \<and> balls g' = drop (length (spawned acc rs) - 30) (spawned acc rs)"
proof (induction rs arbitrary: g acc)
  case Nil
  then show ?case by simp
next
  case (Cons ry rs)
  obtain r y where ry: "ry = (r, y)" by (cases ry)
  let ?g1 = "draw_finish (survives (after_moves r y g)) (after_moves r y g)"
  have d: "draw r y g = Inr ?g1" using Cons.prems(1) by (rule draw_inv)
  have inv1: "game_inv ?g1" using Cons.prems(1) by (intro draw_finish_inv after_moves_inv)
  have "balls ?g1 = evict (moved (drop (length acc - 30) acc) @ arrivals r y)"
    by (simp add: balls_draw_finish after_moves_def Cons.prems(2))
  also have "\<dots> = drop (length (moved acc @ arrivals r y) - 30) (moved acc @ arrivals r y)"
    using evict_drop [OF length_arrivals, of "moved acc" r y]
    by (simp add: moved_drop length_moved)
  finally have "balls ?g1 = drop (length (moved acc @ arrivals r y) - 30) (moved acc @ arrivals r y)" .
  from Cons.IH [OF inv1 this] show ?case by (simp add: ry d)
qed

lemma length_spawned:
  "length (spawned bs rs) = length bs + length (filter (\<lambda>(r, y). r = 0) rs)"
  by (induction rs arbitrary: bs) (auto simp: length_moved arrivals_def)

lemma tap_unfrozen:
  "slot_hash (bird g) = None \<Longrightarrow>
   tap cx cy g = Inr (g\<lparr>bird := (bird g)\<lparr>slot_y := slot_y (bird g) + 30\<rparr>\<rparr>)"
  by (simp add: tap_def vector_move_def vector_iadd_def vector_init_def)

lemma tap_inv: "game_inv g \<Longrightarrow> game_inv (g\<lparr>bird := (bird g)\<lparr>slot_y := slot_y (bird g) + 30\<rparr>\<rparr>)"
  by (simp add: game_inv_def plain_def)

lemma length_evict: "length bs \<le> 30 \<Longrightarrow> length s \<le> 1 \<Longrightarrow> length (evict (moved bs @ s)) \<le> 30"
  by (auto simp: evict_def length_moved)

lemma timers_draw_finish: "timers (draw_finish a g) = (if a then timers g @ [50] else timers g)"
  by (simp add: draw_finish_def Let_def)

lemma onclick_draw_finish: "onclick (draw_finish a g) = onclick g"
  by (simp add: draw_finish_def Let_def)

lemma draw_reach:
  assumes "game_inv g" "length (balls g) \<le> 30"
  shows "\<exists>g'. draw r y g = Inr g' \<and> game_inv g' \<and> length (balls g') \<le> 30
           \<and> length (timers g') \<le> Suc (length (timers g)) \<and> onclick g' = onclick g"
proof -
  let ?g' = "draw_finish (survives (after_moves r y g)) (after_moves r y g)"
  have "draw r y g = Inr ?g'" using assms(1) by (rule draw_inv)
  moreover have "game_inv ?g'" using assms(1) by (intro draw_finish_inv after_moves_inv)
  moreover have "length (balls ?g') \<le> 30"
    using length_evict [OF assms(2) length_arrivals, of r y]
    by (simp add: balls_draw_finish after_moves_def)
  moreover have "length (timers ?g') \<le> Suc (length (timers g))"
    by (simp add: timers_draw_finish after_moves_def)
  moreover have "onclick ?g' = onclick g"
    by (simp add: onclick_draw_finish after_moves_def)
  ultimately show ?thesis by blast
qed

lemma fire_reach:
  assumes "reach_inv g"
  shows "\<exists>g'. fire r y e g = Inr g' \<and> reach_inv g'"
proof (cases e)
  case (Click cx cy)
  show ?thesis
  proof (cases "onclick g")
    case Start
    then have t: "timers g = []" using assms by (simp add: reach_inv_def)
    from assms obtain g' where g': "draw r y g = Inr g'" "game_inv g'" "length (balls g') \<le> 30"
      "length (timers g') \<le> Suc (length (timers g))"
      using draw_reach [of g r y] by (auto simp: reach_inv_def)
    then have "reach_inv (g'\<lparr>onclick := Tap\<rparr>)"
      by (simp add: reach_inv_def game_inv_def t)
    then show ?thesis by (simp add: Click Start start_def g')
  next
    case Tap
    have "slot_hash (bird g) = None" using assms by (simp add: reach_inv_def game_inv_def plain_def)
    moreover have "reach_inv (g\<lparr>bird := (bird g)\<lparr>slot_y := slot_y (bird g) + 30\<rparr>\<rparr>)"
      using assms tap_inv [of g] by (simp add: reach_inv_def Tap)
    ultimately show ?thesis by (simp add: Click Tap tap_unfrozen)
  qed
next
  case Timer
  show ?thesis
  proof (cases "timers g")
    case Nil
    then show ?thesis using assms by (simp add: Timer)
  next
    case (Cons t ts)
    then have ts: "ts = []" and tap: "onclick g = Tap"
      using assms by (auto simp: reach_inv_def intro: handler.exhaust)
    have "game_inv (g\<lparr>timers := []\<rparr>)" "length (balls (g\<lparr>timers := []\<rparr>)) \<le> 30"
      using assms by (simp_all add: reach_inv_def game_inv_def)
    from draw_reach [OF this, of r y] obtain g' where
      "draw r y (g\<lparr>timers := []\<rparr>) = Inr g'" "reach_inv g'"
      by (auto simp: reach_inv_def tap)
    then show ?thesis by (simp add: Timer Cons ts)
  qed
qed

lemma run_reach: "reach_inv g \<Longrightarrow> \<exists>g'. run evs g = Inr g' \<and> reach_inv g'"
proof (induction evs arbitrary: g)
  case Nil
  then show ?case by simp
next
  case (Cons ev evs)
  obtain e r y where ev: "ev = (e, r, y)" by (cases ev)
  from fire_reach [OF Cons.prems, of r y e] obtain g1 where "fire r y e g = Inr g1" "reach_inv g1"
    by blast
  with Cons.IH [of g1] show ?case by (simp add: ev)
qed

lemma reach_initial: "reach_inv initial_game"
  by (simp add: reach_inv_def game_inv_def plain_def initial_game_def vector_init_def)

lemma fire_ended:
  assumes "slot_hash (bird g) = None" "onclick g = Tap" "timers g = []"
  shows "\<exists>g'. fire r y e g = Inr g' \<and> slot_hash (bird g') = None \<and> onclick g' = Tap
           \<and> timers g' = [] \<and> balls g' = balls g \<and> screen g' = screen g"
  using assms by (cases e) (simp_all add: tap_unfrozen)

lemma run_ended:
  "slot_hash (bird g) = None \<Longrightarrow> onclick g = Tap \<Longrightarrow> timers g = [] \<Longrightarrow>
   \<exists>g'. run evs g = Inr g' \<and> onclick g' = Tap \<and> timers g' = []
      \<and> balls g' = balls g \<and> screen g' = screen g"
proof (induction evs arbitrary: g)
  case Nil
  then show ?case by simp
next
  case (Cons ev evs)
  obtain e r y where ev: "ev = (e, r, y)" by (cases ev)
  from fire_ended [OF Cons.prems, of r y e] obtain g1 where g1: "fire r y e g = Inr g1"
    "slot_hash (bird g1) = None" "onclick g1 = Tap" "timers g1 = []"
    "balls g1 = balls g" "screen g1 = screen g"
    by blast
  from Cons.IH [OF g1(2,3,4)] g1 show ?case by (auto simp: ev)
qed

lemmas game_defs = initial_game_def start_def draw_def draw_move_def draw_spawn_def draw_alive_def
  draw_finish_def tap_def inside_def vector_move_def vector_iadd_def vector_init_def
  vector_y_setter_def vector_x_setter_def vector_x_def vector_y_def py_round_def round_half_even_def

text \<open>
  C2. A call of \<^verbatim>\<open>draw\<close> in a state of the game: after the bird and the balls have
  moved and the new ball, if any, has been appended, and before the eviction, \<^verbatim>\<open>alive\<close>
  is true exactly when both coordinates of the bird are strictly between -200 and 200
  and every ball of the list is at a distance of more than 15 from the bird.
\<close>

theorem alive_iff_in_field_and_clear:
  assumes "game_inv g"
  shows "let g2 = after_moves r y g; b = bird g2;
             alive = (- 200 < slot_x b \<and> slot_x b < 200 \<and> - 200 < slot_y b \<and> slot_y b < 200
                      \<and> (\<forall>ball \<in> set (balls g2).
                           15 < sqrt ((slot_x ball - slot_x b)\<^sup>2 + (slot_y ball - slot_y b)\<^sup>2)))
         in (\<exists>g1. draw_move g = Inr g1 \<and> draw_spawn r y g1 = g2)
            \<and> draw_alive g2 = Inr alive
            \<and> draw r y g = Inr (draw_finish alive g2)"
  using draw_inv [OF assms, of r y] draw_alive_inv [OF after_moves_inv [OF assms], of r y]
    draw_move_inv [OF assms] draw_spawn_after_moves [of r y g]
  by (simp add: survives_def in_field_def clear_of_def Let_def)

lemma game_inv_collision: "x \<in> \<int> \<Longrightarrow> game_inv (collision_game x)"
  by (simp add: game_inv_def plain_def collision_game_def vector_init_def)

theorem alive_iff_in_field_and_clear_witness:
  "game_inv (collision_game 13) \<and> game_inv (collision_game 23)
   \<and> draw 1 0 (collision_game 13) =
       Inr \<lparr>bird = vector_init 0 0, balls = [vector_init 10 0],
            screen = [(10, 0, 20, Black), (0, 0, 10, Red)], timers = [], onclick = Tap\<rparr>
   \<and> draw 1 0 (collision_game 23) =
       Inr \<lparr>bird = vector_init 0 0, balls = [vector_init 20 0],
            screen = [(20, 0, 20, Black), (0, 0, 10, Green)], timers = [50], onclick = Tap\<rparr>"
proof -
  have a: "game_inv (collision_game 13)" and b: "game_inv (collision_game 23)"
    by (simp_all add: game_inv_collision)
  have "\<not> 15 < sqrt 100" "15 < sqrt 400"
    by (simp_all add: real_less_rsqrt real_le_lsqrt not_less)
  then show ?thesis
    using a b alive_iff_in_field_and_clear [OF a, of 1 0] alive_iff_in_field_and_clear [OF b, of 1 0]
    by (simp add: collision_game_def after_moves_def moved_def arrivals_def vector_init_def
        draw_finish_def vector_x_def vector_y_def py_round_def round_half_even_def Let_def)
qed

text \<open>
  C3. Whatever the events, the game started from the initial state (no balls) never
  fails and never has more than 30 balls after an event. A call of \<^verbatim>\<open>draw\<close> moves the
  balls, appends at most one, at x = 199, and when that makes more than 30 it drops the
  first, the oldest, and nothing else. So after any sequence of calls of \<^verbatim>\<open>draw\<close> from a
  state without balls the list holds the last 30 of the balls spawned (all of them when
  there are fewer), and after 31 spawns exactly the 30 latest.
\<close>

theorem obstacles_bounded:
  "(\<exists>g'. run evs initial_game = Inr g' \<and> length (balls g') \<le> 30)
   \<and> (game_inv g \<and> length (balls g) \<le> 30 \<longrightarrow>
        (\<exists>g'. draw r y g = Inr g' \<and> length (balls g') \<le> 30
           \<and> balls g' =
               (let bs = map (\<lambda>ball. ball\<lparr>slot_x := slot_x ball - 3\<rparr>) (balls g)
                           @ (if r = 0 then [vector_init 199 (of_int y)] else [])
                in if length bs > 30 then tl bs else bs)))
   \<and> (game_inv g \<and> balls g = [] \<longrightarrow>
        (\<exists>g'. ticks rs g = Inr g' \<and> length (balls g') \<le> 30
           \<and> length (spawned [] rs) = length (filter (\<lambda>(r, y). r = 0) rs)
           \<and> balls g' = drop (length (spawned [] rs) - 30) (spawned [] rs)
           \<and> (length (filter (\<lambda>(r, y). r = 0) rs) = 31 \<longrightarrow>
                length (balls g') = 30 \<and> balls g' = tl (spawned [] rs))))"
proof (intro conjI impI)
  show "\<exists>g'. run evs initial_game = Inr g' \<and> length (balls g') \<le> 30"
    using run_reach [OF reach_initial, of evs] by (auto simp: reach_inv_def)
next
  assume a: "game_inv g \<and> length (balls g) \<le> 30"
  then have "draw r y g = Inr (draw_finish (survives (after_moves r y g)) (after_moves r y g))"
    by (simp add: draw_inv)
  moreover have "length (evict (moved (balls g) @ arrivals r y)) \<le> 30"
    using a length_evict [OF _ length_arrivals] by simp
  ultimately show "\<exists>g'. draw r y g = Inr g' \<and> length (balls g') \<le> 30
           \<and> balls g' =
               (let bs = map (\<lambda>ball. ball\<lparr>slot_x := slot_x ball - 3\<rparr>) (balls g)
                           @ (if r = 0 then [vector_init 199 (of_int y)] else [])
                in if length bs > 30 then tl bs else bs)"
    by (simp add: balls_draw_finish after_moves_def evict_def moved_def arrivals_def Let_def)
next
  assume a: "game_inv g \<and> balls g = []"
  then obtain g' where g': "ticks rs g = Inr g'"
    "balls g' = drop (length (spawned [] rs) - 30) (spawned [] rs)"
    using ticks_window [of g "[]" rs] by auto
  have n: "length (spawned [] rs) = length (filter (\<lambda>(r, y). r = 0) rs)"
    by (simp add: length_spawned)
  have "length (filter (\<lambda>(r, y). r = 0) rs) = 31 \<longrightarrow>
          length (balls g') = 30 \<and> balls g' = tl (spawned [] rs)"
    using g'(2) n by (simp add: drop_Suc)
  then show "\<exists>g'. ticks rs g = Inr g' \<and> length (balls g') \<le> 30
           \<and> length (spawned [] rs) = length (filter (\<lambda>(r, y). r = 0) rs)
           \<and> balls g' = drop (length (spawned [] rs) - 30) (spawned [] rs)
           \<and> (length (filter (\<lambda>(r, y). r = 0) rs) = 31 \<longrightarrow>
                length (balls g') = 30 \<and> balls g' = tl (spawned [] rs))"
    using g' n by auto
qed

theorem obstacles_bounded_witness:
  "game_inv initial_game \<and> balls initial_game = []
   \<and> length (filter (\<lambda>(r, y). r = 0) spawn_run) = 31
   \<and> (\<exists>g'. ticks spawn_run initial_game = Inr g'
        \<and> balls g' =
       [vector_init 112 2,
        vector_init 115 3,
        vector_init 118 4,
        vector_init 121 5,
        vector_init 124 6,
        vector_init 127 7,
        vector_init 130 8,
        vector_init 133 9,
        vector_init 136 10,
        vector_init 139 11,
        vector_init 142 12,
        vector_init 145 13,
        vector_init 148 14,
        vector_init 151 15,
        vector_init 154 16,
        vector_init 157 17,
        vector_init 160 18,
        vector_init 163 19,
        vector_init 166 20,
        vector_init 169 21,
        vector_init 172 22,
        vector_init 175 23,
        vector_init 178 24,
        vector_init 181 25,
        vector_init 184 26,
        vector_init 187 27,
        vector_init 190 28,
        vector_init 193 29,
        vector_init 196 30,
        vector_init 199 31])"
proof -
  have inv: "game_inv initial_game \<and> balls initial_game = []"
    by (simp add: initial_game_def game_inv_def plain_def vector_init_def)
  have n: "length (filter (\<lambda>(r, y). r = 0) spawn_run) = 31"
    by (simp add: spawn_run_def)
  have sp: "tl (spawned [] spawn_run) =
       [vector_init 112 2,
        vector_init 115 3,
        vector_init 118 4,
        vector_init 121 5,
        vector_init 124 6,
        vector_init 127 7,
        vector_init 130 8,
        vector_init 133 9,
        vector_init 136 10,
        vector_init 139 11,
        vector_init 142 12,
        vector_init 145 13,
        vector_init 148 14,
        vector_init 151 15,
        vector_init 154 16,
        vector_init 157 17,
        vector_init 160 18,
        vector_init 163 19,
        vector_init 166 20,
        vector_init 169 21,
        vector_init 172 22,
        vector_init 175 23,
        vector_init 178 24,
        vector_init 181 25,
        vector_init 184 26,
        vector_init 187 27,
        vector_init 190 28,
        vector_init 193 29,
        vector_init 196 30,
        vector_init 199 31]"
    by (simp add: spawn_run_def moved_def arrivals_def vector_init_def)
  from obstacles_bounded [of "[]" initial_game 0 0 spawn_run] inv n
  obtain g' where "ticks spawn_run initial_game = Inr g'" "balls g' = tl (spawned [] spawn_run)"
    by blast
  then show ?thesis using inv n sp by simp
qed

text \<open>
  C4. A call of \<^verbatim>\<open>draw\<close> registers one timer, of 50 ms, when \<^verbatim>\<open>alive\<close> is true and
  none when it is false. While the game runs, one timer is registered: when it fires,
  the state afterwards has one timer again if \<^verbatim>\<open>alive\<close>, and none if not; and from that
  state, whatever events follow, no timer is registered any more, \<^verbatim>\<open>draw\<close> is not called
  again, and the balls and the canvas stay as they are.
\<close>

theorem tick_rescheduled_iff_alive:
  assumes "game_inv g"
  shows "(\<exists>g1 alive g'. draw_move g = Inr g1 \<and> draw_alive (draw_spawn r y g1) = Inr alive
            \<and> draw r y g = Inr g'
            \<and> timers g' = (if alive then timers g @ [50] else timers g))
       \<and> (onclick g = Tap \<and> timers g = [t] \<longrightarrow>
            (\<exists>g1 alive g'. draw_move (g\<lparr>timers := []\<rparr>) = Inr g1
               \<and> draw_alive (draw_spawn r y g1) = Inr alive
               \<and> fire r y Timer g = Inr g'
               \<and> timers g' = (if alive then [50] else [])
               \<and> (\<not> alive \<longrightarrow>
                    (\<forall>evs. \<exists>g''. run evs g' = Inr g'' \<and> timers g'' = []
                       \<and> balls g'' = balls g' \<and> screen g'' = screen g'))))"
proof (intro conjI impI)
  let ?g2 = "after_moves r y g"
  show "\<exists>g1 alive g'. draw_move g = Inr g1 \<and> draw_alive (draw_spawn r y g1) = Inr alive
            \<and> draw r y g = Inr g'
            \<and> timers g' = (if alive then timers g @ [50] else timers g)"
    using draw_inv [OF assms, of r y] draw_alive_inv [OF after_moves_inv [OF assms], of r y]
      draw_move_inv [OF assms] draw_spawn_after_moves [of r y g]
    by (simp add: survives_def timers_draw_finish after_moves_def)
next
  assume running: "onclick g = Tap \<and> timers g = [t]"
  let ?g0 = "g\<lparr>timers := []\<rparr>"
  let ?g2 = "after_moves r y ?g0"
  let ?g' = "draw_finish (survives ?g2) ?g2"
  have inv0: "game_inv ?g0" using assms by (simp add: game_inv_def)
  have f: "fire r y Timer g = Inr ?g'"
    using running draw_inv [OF inv0, of r y] by simp
  have t: "timers ?g' = (if survives ?g2 then [50] else [])"
    by (simp add: timers_draw_finish after_moves_def)
  have h: "slot_hash (bird ?g') = None" and c: "onclick ?g' = Tap"
    using draw_finish_inv [OF after_moves_inv [OF inv0], of "survives ?g2" r y] running
    by (simp_all add: game_inv_def plain_def onclick_draw_finish after_moves_def)
  have e: "\<not> survives ?g2 \<longrightarrow>
      (\<forall>evs. \<exists>g''. run evs ?g' = Inr g'' \<and> timers g'' = []
          \<and> balls g'' = balls ?g' \<and> screen g'' = screen ?g')"
  proof (intro impI allI)
    fix evs
    assume "\<not> survives ?g2"
    then have "timers ?g' = []" using t by simp
    from run_ended [OF h c this, of evs]
    show "\<exists>g''. run evs ?g' = Inr g'' \<and> timers g'' = []
          \<and> balls g'' = balls ?g' \<and> screen g'' = screen ?g'"
      by blast
  qed
  have "draw_move ?g0 = Inr (?g0\<lparr>bird := (bird ?g0)\<lparr>slot_y := slot_y (bird ?g0) - 5\<rparr>, balls := moved (balls ?g0)\<rparr>)"
    using inv0 by (rule draw_move_inv)
  moreover have "draw_alive ?g2 = Inr (survives ?g2)"
    using draw_alive_inv [OF after_moves_inv [OF inv0], of r y] by (simp add: survives_def)
  ultimately show "\<exists>g1 alive g'. draw_move ?g0 = Inr g1
               \<and> draw_alive (draw_spawn r y g1) = Inr alive
               \<and> fire r y Timer g = Inr g'
               \<and> timers g' = (if alive then [50] else [])
               \<and> (\<not> alive \<longrightarrow>
                    (\<forall>evs. \<exists>g''. run evs g' = Inr g'' \<and> timers g'' = []
                       \<and> balls g'' = balls g' \<and> screen g'' = screen g'))"
    using f t e draw_spawn_after_moves [of r y ?g0] by simp
qed

theorem tick_rescheduled_iff_alive_witness:
  "game_inv (falling_game (- 195)) \<and> onclick (falling_game (- 195)) = Tap
   \<and> timers (falling_game (- 195)) = [50]
   \<and> (\<exists>g'. fire 1 0 Timer (falling_game (- 195)) = Inr g' \<and> timers g' = []
         \<and> (\<exists>g''. run [(Click 0 0, 1, 0), (Timer, 1, 0)] g' = Inr g'' \<and> timers g'' = []))
   \<and> game_inv (falling_game 0)
   \<and> (\<exists>g'. fire 1 0 Timer (falling_game 0) = Inr g' \<and> timers g' = [50])"
proof -
  have a: "game_inv (falling_game (- 195))" and b: "game_inv (falling_game 0)"
    by (simp_all add: falling_game_def game_inv_def plain_def vector_init_def)
  have o: "onclick (falling_game h) = Tap \<and> timers (falling_game h) = [50]" for h
    by (simp add: falling_game_def)
  have m: "draw_move (falling_game h\<lparr>timers := []\<rparr>) =
      Inr (falling_game h\<lparr>timers := [], bird := vector_init 0 (h - 5)\<rparr>)" if "h \<in> \<int>" for h
    using that by (simp add: falling_game_def draw_move_def vector_y_setter_def vector_y_def
        vector_init_def py_round_Ints)
  have d: "draw_alive (draw_spawn 1 0 (falling_game h\<lparr>timers := [], bird := vector_init 0 (h - 5)\<rparr>))
      = Inr (- 195 < h \<and> h < 205)" if "h \<in> \<int>" for h
    using that py_round_of_int [of 0 9]
    by (auto simp: falling_game_def draw_spawn_def draw_alive_def inside_def vector_x_def
        vector_y_def vector_init_def py_round_Ints)
  from tick_rescheduled_iff_alive [OF a, where r = 1 and y = 0 and t = 50] o [of "- 195"]
  obtain g1 alive g' where dead:
    "draw_move (falling_game (- 195)\<lparr>timers := []\<rparr>) = Inr g1"
    "draw_alive (draw_spawn 1 0 g1) = Inr alive"
    "fire 1 0 Timer (falling_game (- 195)) = Inr g'"
    "timers g' = (if alive then [50] else [])"
    "\<not> alive \<longrightarrow> (\<forall>evs. \<exists>g''. run evs g' = Inr g'' \<and> timers g'' = []
        \<and> balls g'' = balls g' \<and> screen g'' = screen g')"
    by blast
  have "\<not> alive" using dead(1,2) m [of "- 195"] d [of "- 195"] by simp
  with dead have 1: "\<exists>g'. fire 1 0 Timer (falling_game (- 195)) = Inr g' \<and> timers g' = []
         \<and> (\<exists>g''. run [(Click 0 0, 1, 0), (Timer, 1, 0)] g' = Inr g'' \<and> timers g'' = [])"
    by (metis (full_types))
  from tick_rescheduled_iff_alive [OF b, where r = 1 and y = 0 and t = 50] o [of 0]
  obtain g1 alive g' where live:
    "draw_move (falling_game 0\<lparr>timers := []\<rparr>) = Inr g1"
    "draw_alive (draw_spawn 1 0 g1) = Inr alive"
    "fire 1 0 Timer (falling_game 0) = Inr g'"
    "timers g' = (if alive then [50] else [])"
    by blast
  have "alive" using live(1,2) m [of 0] d [of 0] by simp
  with live have 2: "\<exists>g'. fire 1 0 Timer (falling_game 0) = Inr g' \<and> timers g' = [50]"
    by simp
  show ?thesis using a b o 1 2 by simp
qed

text \<open>
  C6, as claimed: once the loop has ended a click has no effect on the position of the
  bird. It has: eight clicks (the first one starts the game) and one tick take the bird
  to (0, 200), out of the field, the loop ends with no timer registered, and the next
  click moves the bird to (0, 230).
\<close>

theorem tap_after_end_counterexample:
  "run [(Click 0 0, 1, 0), (Click 0 0, 1, 0), (Click 0 0, 1, 0), (Click 0 0, 1, 0),
        (Click 0 0, 1, 0), (Click 0 0, 1, 0), (Click 0 0, 1, 0), (Click 0 0, 1, 0),
        (Timer, 1, 0)] initial_game = Inr ended_game
   \<and> timers ended_game = []
   \<and> fire 1 0 Timer ended_game = Inr ended_game
   \<and> slot_y (bird ended_game) = 200
   \<and> fire 1 0 (Click 0 0) ended_game = Inr (ended_game\<lparr>bird := vector_init 0 230\<rparr>)"
  by (simp add: ended_game_def game_defs)

text \<open>
  C6, amended. After the first click, which starts the game, every click adds 30 to the
  y of the bird and leaves its x, whether a tick is pending or the loop has ended; it
  raises nothing and changes nothing else (the canvas is not drawn again).
\<close>

theorem tap_moves_bird_up:
  assumes "slot_hash (bird g) = None" and "onclick g = Tap"
  shows "fire r y (Click cx cy) g =
           Inr (g\<lparr>bird := \<lparr>slot_x = slot_x (bird g), slot_y = slot_y (bird g) + 30,
                            slot_hash = None\<rparr>\<rparr>)"
  using assms by (simp add: tap_unfrozen)

theorem tap_moves_bird_up_witness:
  "slot_hash (bird (falling_game 0)) = None \<and> onclick (falling_game 0) = Tap
   \<and> timers (falling_game 0) \<noteq> []
   \<and> fire 1 0 (Click 3 4) (falling_game 0) = Inr (falling_game 30)
   \<and> slot_hash (bird ended_game) = None \<and> onclick ended_game = Tap
   \<and> timers ended_game = []
   \<and> fire 1 0 (Click 3 4) ended_game = Inr (ended_game\<lparr>bird := vector_init 0 230\<rparr>)"
  using tap_moves_bird_up [of "falling_game 0" 1 0 3 4] tap_moves_bird_up [of ended_game 1 0 3 4]
  by (simp add: falling_game_def ended_game_def vector_init_def)

lemma reachable_game_inv: "\<exists>g. run evs initial_game = Inr g \<and> game_inv g"
  using run_reach [OF reach_initial, of evs] by (auto simp: reach_inv_def)

end
